theory Spec2Isabelle
  imports Complex_Main "HOL-Library.AList" "HOL-Library.Multiset"
begin

section \<open>Numbers\<close>

text \<open>
  The Go code keeps every amount in a \<^verbatim>\<open>float64\<close> field and moves it through the
  arbitrary-precision type of \<^verbatim>\<open>github.com/shopspring/decimal\<close> wherever it rounds.
  Both are modelled by exact real numbers, the one decimal number type that the
  specification asks for: a finite \<^verbatim>\<open>float64\<close> stands for the decimal number it
  denotes, so that the two conversions are the identity, and \<open>+\<close>, \<open>-\<close>, \<open>*\<close>, \<open>/\<close> on
  \<^verbatim>\<open>float64\<close> are the exact operations. Binary rounding error, overflow and NaN operands
  are outside this model; a result that is not a finite number (division by zero in
  \<^verbatim>\<open>float64\<close>) is kept where the code can produce one, see \<open>xfloat\<close> below. Every
  rounding that the source writes out (\<^verbatim>\<open>Round\<close>, \<^verbatim>\<open>math.Floor\<close>) is modelled. The
  last section recomputes the numeric examples with every \<^verbatim>\<open>float64\<close> operation rounded
  as the machine rounds it.
\<close>

type_synonym float64 = real
type_synonym decimal = real

text \<open>\<^verbatim>\<open>time.Time\<close>: an abstract instant; the zero value of the type is instant 0.\<close>

type_synonym time = int

text \<open>
  A Go call either returns or panics. (No function of the model loops: every loop of the
  source ranges over a finite slice or map.)
\<close>

datatype 'a outcome = Panic | Return 'a

definition NewFromFloat :: "float64 \<Rightarrow> decimal" where
  "NewFromFloat x = x"

definition Float64 :: "decimal \<Rightarrow> float64" where
  "Float64 d = d"

definition dec_Add :: "decimal \<Rightarrow> decimal \<Rightarrow> decimal" where
  "dec_Add a b = a + b"

definition dec_Sub :: "decimal \<Rightarrow> decimal \<Rightarrow> decimal" where
  "dec_Sub a b = a - b"

text \<open>\<^verbatim>\<open>Decimal.Div\<close> panics on a zero divisor; its quotient is taken as exact.\<close>

definition dec_Div :: "decimal \<Rightarrow> decimal \<Rightarrow> decimal outcome" where
  "dec_Div a b = (if b = 0 then Panic else Return (a / b))"

text \<open>
  \<^verbatim>\<open>Decimal.Round(places)\<close>: to \<open>places\<close> digits after the decimal point, halves
  away from zero; a negative \<open>places\<close> rounds the integer part to a multiple of
  \<open>10 ^ (- places)\<close>.
\<close>

definition dec_Round :: "decimal \<Rightarrow> int \<Rightarrow> decimal" where
  "dec_Round d places =
     (if 0 \<le> places
      then sgn d * of_int \<lfloor>\<bar>d\<bar> * 10 ^ nat places + 1 / 2\<rfloor> / 10 ^ nat places
      else sgn d * of_int \<lfloor>\<bar>d\<bar> / 10 ^ nat (- places) + 1 / 2\<rfloor> * 10 ^ nat (- places))"

definition dec_GreaterThanOrEqual :: "decimal \<Rightarrow> decimal \<Rightarrow> bool" where
  "dec_GreaterThanOrEqual a b = (b \<le> a)"

definition dec_Equal :: "decimal \<Rightarrow> decimal \<Rightarrow> bool" where
  "dec_Equal a b = (a = b)"

text \<open>\<^verbatim>\<open>math.Floor\<close>, from \<^verbatim>\<open>float64\<close> to \<^verbatim>\<open>float64\<close>.\<close>

definition math_Floor :: "float64 \<Rightarrow> float64" where
  "math_Floor x = of_int \<lfloor>x\<rfloor>"





section \<open>Events\<close>

text \<open>
  The structs \<^verbatim>\<open>Event\<close>, \<^verbatim>\<open>Signal\<close>, \<^verbatim>\<open>Order\<close> and \<^verbatim>\<open>Fill\<close> are declared outside
  the files at hand; their fields are the ones the composite literals and getters of
  \<^verbatim>\<open>portfolio.go\<close> and \<^verbatim>\<open>exchange.go\<close> name. The embedded \<^verbatim>\<open>Event{Time, Symbol}\<close> is
  flattened into each record. A zero-valued struct (\<^verbatim>\<open>&Order{}\<close>) has every field at the
  zero value of its type. The quantity of an order is a \<^verbatim>\<open>float64\<close> (\<^verbatim>\<open>OnSignal\<close> sets
  it to \<^verbatim>\<open>0.2\<close>), and so is the quantity of the fill that copies it.
\<close>

record Signal =
  Signal_Time :: time
  Signal_Symbol :: string
  Signal_Direction :: string

record Order =
  Order_Time :: time
  Order_Symbol :: string
  Order_Direction :: string
  Order_Qty :: float64
  Order_OrderType :: string
  Order_Limit :: float64

record Fill =
  Fill_Time :: time
  Fill_Symbol :: string
  Fill_Exchange :: string
  Fill_Direction :: string
  Fill_Qty :: float64
  Fill_Price :: float64
  Fill_Commission :: float64
  Fill_ExchangeFee :: float64
  Fill_Cost :: float64


text \<open>
  Modelled from the spec: \<^verbatim>\<open>Fill.NetValue\<close> is not in the files at hand. The spec gives
  the net fill value as price \<open>\<times>\<close> quantity + cost.
\<close>

definition NetValue :: "Fill \<Rightarrow> float64" where
  "NetValue f = Fill_Price f * Fill_Qty f + Fill_Cost f"

section \<open>The market feed\<close>

text \<open>
  \<^verbatim>\<open>DataHandler.Latest(symbol)\<close> returns a value of the interface type
  \<^verbatim>\<open>DataEventHandler\<close>, on which the code calls \<^verbatim>\<open>LatestPrice()\<close> at once. A value of
  an interface type may be \<^verbatim>\<open>nil\<close> (here: the feed knows no observation of the symbol),
  and a method call on it is a run-time panic. The feed is the function \<^verbatim>\<open>Latest\<close>
  itself, with \<open>None\<close> for \<^verbatim>\<open>nil\<close>.
\<close>

record DataEvent =
  DataEvent_Time :: time
  DataEvent_Symbol :: string
  DataEvent_LatestPrice :: float64

type_synonym DataHandler = "string \<Rightarrow> DataEvent option"

definition LatestPrice :: "DataEvent option \<Rightarrow> float64 outcome" where
  "LatestPrice latest = (case latest of None \<Rightarrow> Panic | Some d \<Rightarrow> Return (DataEvent_LatestPrice d))"

section \<open>Execution\<close>

record Exchange =
  Exchange_Symbol :: string
  Exchange_ExchangeFee :: float64
  Exchange_CommissionRate :: float64

definition calculateCommission :: "Exchange \<Rightarrow> float64 \<Rightarrow> float64 \<Rightarrow> float64" where
  "calculateCommission e qty price =
     (let comRate = Exchange_CommissionRate e
      in math_Floor (qty * price * comRate * 10000) / 10000)"

definition calculateExchangeFee :: "Exchange \<Rightarrow> float64" where
  "calculateExchangeFee e = Exchange_ExchangeFee e"

definition calculateCost :: "Exchange \<Rightarrow> float64 \<Rightarrow> float64 \<Rightarrow> float64" where
  "calculateCost e commission fee = commission + fee"

text \<open>
  \<^verbatim>\<open>ExecuteOrder\<close> returns the pair of a fill and an error; \<open>None\<close> is the \<^verbatim>\<open>nil\<close>
  error. The only \<^verbatim>\<open>return\<close> of the function is \<^verbatim>\<open>return f, nil\<close>.
\<close>

definition ExecuteOrder :: "Exchange \<Rightarrow> Order \<Rightarrow> DataHandler \<Rightarrow> (Fill \<times> string option) outcome" where
  "ExecuteOrder e order data =
     (let latest = data (Order_Symbol order)
      in case LatestPrice latest of
           Panic \<Rightarrow> Panic
         | Return price \<Rightarrow>
            (let f = \<lparr>Fill_Time = Order_Time order, Fill_Symbol = Order_Symbol order,
                       Fill_Exchange = Exchange_Symbol e, Fill_Direction = [],
                       Fill_Qty = Order_Qty order, Fill_Price = price,
                       Fill_Commission = 0, Fill_ExchangeFee = 0, Fill_Cost = 0\<rparr>;
                 f = (if Order_Direction order = ''buy'' then f\<lparr>Fill_Direction := ''BOT''\<rparr>
                      else if Order_Direction order = ''sell'' then f\<lparr>Fill_Direction := ''SLD''\<rparr>
                      else f);
                 f = f\<lparr>Fill_Commission := calculateCommission e (Fill_Qty f) (Fill_Price f)\<rparr>;
                 f = f\<lparr>Fill_ExchangeFee := calculateExchangeFee e\<rparr>;
                 f = f\<lparr>Fill_Cost := calculateCost e (Fill_Commission f) (Fill_ExchangeFee f)\<rparr>
             in Return (f, None)))"

section \<open>Portfolio\<close>

text \<open>
  The struct \<^verbatim>\<open>position\<close> is declared outside the files at hand; \<^verbatim>\<open>portfolio.go\<close> reads
  its fields \<^verbatim>\<open>qty\<close> and \<^verbatim>\<open>marketValue\<close>. Its methods \<^verbatim>\<open>Create\<close> and \<^verbatim>\<open>Update\<close> are
  parameters of \<open>OnFill\<close>.
\<close>

record position =
  qty :: float64
  marketValue :: float64


text \<open>
  \<^verbatim>\<open>holdings\<close> is a \<^verbatim>\<open>map[string]position\<close>: an association list, read with \<open>map_of\<close>
  and written with \<open>AList.update\<close>, which keeps the keys distinct. A \<^verbatim>\<open>nil\<close> map reads
  like the empty one and \<^verbatim>\<open>OnFill\<close> replaces it by an empty one before writing, so both
  are \<open>[]\<close>. Go ranges over a map in an unspecified order; the order of the list stands
  for it.
\<close>

record Portfolio =
  initialCash :: float64
  cash :: float64
  holdings :: "(string \<times> position) list"
  transactions :: "Fill list"

definition Reset :: "Portfolio \<Rightarrow> Portfolio" where
  "Reset p = p\<lparr>cash := 0, transactions := []\<rparr>"




text \<open>
  \<^verbatim>\<open>OnFill\<close> returns the fill it was given and the \<^verbatim>\<open>nil\<close> error, and leaves the
  portfolio changed: the result is the new portfolio, the fill and the error. The fill
  event is a \<^verbatim>\<open>*Fill\<close>, the only fill type there is.
\<close>

definition OnFill ::
  "(Fill \<Rightarrow> position) \<Rightarrow> (position \<Rightarrow> Fill \<Rightarrow> position) \<Rightarrow> Portfolio \<Rightarrow> Fill
     \<Rightarrow> Portfolio \<times> Fill \<times> string option" where
  "OnFill pos_Create pos_Update p fill =
     (let p = (case map_of (holdings p) (Fill_Symbol fill) of
                 Some pos \<Rightarrow> p\<lparr>holdings := AList.update (Fill_Symbol fill) (pos_Update pos fill) (holdings p)\<rparr>
               | None \<Rightarrow> p\<lparr>holdings := AList.update (Fill_Symbol fill) (pos_Create fill) (holdings p)\<rparr>);
          p = (if Fill_Direction fill = ''BOT'' then p\<lparr>cash := cash p - NetValue fill\<rparr>
               else p\<lparr>cash := cash p + NetValue fill\<rparr>);
          p = p\<lparr>transactions := transactions p @ [fill]\<rparr>
      in (p, fill, None))"

text \<open>The loop of \<^verbatim>\<open>Value\<close> over the map, with the accumulator \<^verbatim>\<open>holdingValue\<close>.\<close>

fun Value_loop :: "decimal \<Rightarrow> (string \<times> position) list \<Rightarrow> decimal" where
  "Value_loop holdingValue [] = holdingValue"
| "Value_loop holdingValue ((symbol, pos) # rest) =
     Value_loop (dec_Add holdingValue (NewFromFloat (marketValue pos))) rest"

definition Value :: "Portfolio \<Rightarrow> float64" where
  "Value p =
     (let holdingValue = Value_loop (NewFromFloat 0) (holdings p);
          cash = NewFromFloat (cash p)
      in Float64 (dec_Round (dec_Add cash holdingValue) 4))"

section \<open>Statistic\<close>

record equityPoint =
  timestamp :: time
  equity :: float64
  equityReturn :: float64
  drawdown :: float64

definition equityPoint_zero :: equityPoint where
  "equityPoint_zero = \<lparr>timestamp = 0, equity = 0, equityReturn = 0, drawdown = 0\<rparr>"

text \<open>The interface \<^verbatim>\<open>EventHandler\<close>: one constructor for each kind of event.\<close>

datatype EventHandler = DataEv DataEvent | SignalEv Signal | OrderEv Order | FillEv Fill

text \<open>
  The field \<^verbatim>\<open>equity\<close> of \<^verbatim>\<open>Statistic\<close> (the slice of equity points) is
  \<open>Statistic_equity\<close>, since \<open>equity\<close> is the field of \<^verbatim>\<open>equityPoint\<close>.
\<close>

record Statistic =
  eventHistory :: "EventHandler list"
  transactionHistory :: "Fill list"
  Statistic_equity :: "equityPoint list"
  high :: equityPoint
  low :: equityPoint

text \<open>The zero value \<^verbatim>\<open>Statistic{}\<close>, with which a run starts and which \<^verbatim>\<open>Reset\<close> restores.\<close>

definition Statistic_zero :: Statistic where
  "Statistic_zero = \<lparr>eventHistory = [], transactionHistory = [], Statistic_equity = [],
     high = equityPoint_zero, low = equityPoint_zero\<rparr>"

definition lastEquityPoint :: "Statistic \<Rightarrow> equityPoint \<times> bool" where
  "lastEquityPoint s =
     (if length (Statistic_equity s) \<le> 0 then (equityPoint_zero, False)
      else (Statistic_equity s ! (length (Statistic_equity s) - 1), True))"

text \<open>
  The constant \<^verbatim>\<open>DP\<close> (the number of decimal places passed to \<^verbatim>\<open>Round\<close>) is declared
  outside the files at hand: it is the first parameter of the functions that use it.
\<close>

definition calcEquityReturn :: "int \<Rightarrow> Statistic \<Rightarrow> equityPoint \<Rightarrow> equityPoint outcome" where
  "calcEquityReturn DP s e =
     (case lastEquityPoint s of
        (last', ok) \<Rightarrow>
          if \<not> ok then Return (e\<lparr>equityReturn := 0\<rparr>)
          else
           (let lastEquity = NewFromFloat (equity last');
                currentEquity = NewFromFloat (equity e)
            in if dec_Equal lastEquity 0 then Return (e\<lparr>equityReturn := 1\<rparr>)
               else case dec_Div (dec_Sub currentEquity lastEquity) lastEquity of
                      Panic \<Rightarrow> Panic
                    | Return equityReturn' \<Rightarrow>
                        Return (e\<lparr>equityReturn := Float64 (dec_Round equityReturn' DP)\<rparr>)))"

definition calcDrawdown :: "int \<Rightarrow> Statistic \<Rightarrow> equityPoint \<Rightarrow> equityPoint outcome" where
  "calcDrawdown DP s e =
     (if equity (high s) = 0 then Return (e\<lparr>drawdown := 0\<rparr>)
      else
       (let lastHigh = NewFromFloat (equity (high s));
            equity' = NewFromFloat (equity e)
        in if dec_GreaterThanOrEqual equity' lastHigh then Return (e\<lparr>drawdown := 0\<rparr>)
           else case dec_Div (dec_Sub equity' lastHigh) lastHigh of
                  Panic \<Rightarrow> Panic
                | Return drawdown' \<Rightarrow>
                    Return (e\<lparr>drawdown := Float64 (dec_Round drawdown' DP)\<rparr>)))"

text \<open>
  \<^verbatim>\<open>Update\<close> takes the data event and the portfolio, of which it reads
  \<^verbatim>\<open>d.GetTime()\<close> and \<^verbatim>\<open>p.Value()\<close>.
\<close>

definition Update :: "int \<Rightarrow> Statistic \<Rightarrow> DataEvent \<Rightarrow> Portfolio \<Rightarrow> Statistic outcome" where
  "Update DP s d p =
     (let e = equityPoint_zero\<lparr>timestamp := DataEvent_Time d, equity := Value p\<rparr>
      in case (if length (Statistic_equity s) > 0 then calcEquityReturn DP s e else Return e) of
           Panic \<Rightarrow> Panic
         | Return e \<Rightarrow>
            (case (if length (Statistic_equity s) > 0 then calcDrawdown DP s e else Return e) of
               Panic \<Rightarrow> Panic
             | Return e \<Rightarrow>
                (let s = (if equity e \<ge> equity (high s) then s\<lparr>high := e\<rparr> else s);
                     s = (if equity e \<le> equity (low s) then s\<lparr>low := e\<rparr> else s)
                 in Return (s\<lparr>Statistic_equity := Statistic_equity s @ [e]\<rparr>))))"

text \<open>
  A run of the statistics: one call of \<^verbatim>\<open>Update\<close> for each observation, in order, as
  the engine's loop makes them; a panic ends the run.
\<close>

fun Updates :: "int \<Rightarrow> Statistic \<Rightarrow> (DataEvent \<times> Portfolio) list \<Rightarrow> Statistic outcome" where
  "Updates DP s [] = Return s"
| "Updates DP s ((d, p) # rest) =
     (case Update DP s d p of Panic \<Rightarrow> Panic | Return s' \<Rightarrow> Updates DP s' rest)"

subsection \<open>Risk ratios\<close>








section \<open>Closed forms and invariants\<close>

text \<open>
  The equity point that \<^verbatim>\<open>Update\<close> appends, in closed form: the return is 0 for the
  first point, 1 after a point of equity zero, and the rounded relative change otherwise;
  the drawdown is 0 for the first point, for a high-water mark of zero and for an equity
  at or above the high-water mark, and the rounded relative distance to it otherwise.
  Lemma \<open>Update_Return\<close> below proves that \<open>Update\<close> computes it.
\<close>

definition Update_point :: "int \<Rightarrow> Statistic \<Rightarrow> DataEvent \<Rightarrow> Portfolio \<Rightarrow> equityPoint" where
  "Update_point DP s d p =
     \<lparr>timestamp = DataEvent_Time d, equity = Value p,
      equityReturn =
        (if Statistic_equity s = [] then 0
         else if equity (last (Statistic_equity s)) = 0 then 1
         else dec_Round ((Value p - equity (last (Statistic_equity s)))
                          / equity (last (Statistic_equity s))) DP),
      drawdown =
        (if Statistic_equity s = [] \<or> equity (high s) = 0 \<or> equity (high s) \<le> Value p then 0
         else dec_Round ((Value p - equity (high s)) / equity (high s)) DP)\<rparr>"

text \<open>
  The invariant of a run that starts from \<open>Statistic_zero\<close>: the high-water equity never
  is negative, and no recorded drawdown is positive.
\<close>

definition drawdown_inv :: "Statistic \<Rightarrow> bool" where
  "drawdown_inv s =
     (0 \<le> equity (high s) \<and> list_all (\<lambda>e. drawdown e \<le> 0) (Statistic_equity s))"

section \<open>Rounded arithmetic\<close>

text \<open>
  For the numeric examples, the \<^verbatim>\<open>float64\<close> operations as the machine performs them:
  the exact result rounded to the nearest number with a significand of 53 bits, ties to
  the even significand (IEEE 754 binary64, subnormal numbers included; overflow to an
  infinity is not modelled and does not occur in the examples). A decimal literal of the
  Go source, such as \<^verbatim>\<open>0.0025\<close>, denotes its rounding.
\<close>

definition round_half_even :: "real \<Rightarrow> int" where
  "round_half_even y =
     (let n = \<lfloor>y\<rfloor>; r = y - of_int n
      in if r < 1 / 2 then n else if 1 / 2 < r then n + 1 else if even n then n else n + 1)"

definition binary64 :: "real \<Rightarrow> float64" where
  "binary64 x =
     (if x = 0 then 0
      else let e = max \<lfloor>log 2 \<bar>x\<bar>\<rfloor> (- 1022) - 52
           in sgn x * (of_int (round_half_even (\<bar>x\<bar> / 2 powr of_int e)) * 2 powr of_int e))"

definition f64_add :: "float64 \<Rightarrow> float64 \<Rightarrow> float64" where
  "f64_add a b = binary64 (a + b)"

definition f64_sub :: "float64 \<Rightarrow> float64 \<Rightarrow> float64" where
  "f64_sub a b = binary64 (a - b)"

definition f64_mul :: "float64 \<Rightarrow> float64 \<Rightarrow> float64" where
  "f64_mul a b = binary64 (a * b)"

definition f64_div :: "float64 \<Rightarrow> float64 \<Rightarrow> float64" where
  "f64_div a b = binary64 (a / b)"

text \<open>
  \<^verbatim>\<open>calculateCommission\<close>, \<^verbatim>\<open>NetValue\<close> and the cash update of \<^verbatim>\<open>OnFill\<close> once more,
  with every operation rounded, in the order in which Go evaluates them.
\<close>

definition calculateCommission_f64 :: "Exchange \<Rightarrow> float64 \<Rightarrow> float64 \<Rightarrow> float64" where
  "calculateCommission_f64 e q price =
     (let comRate = Exchange_CommissionRate e
      in f64_div (math_Floor (f64_mul (f64_mul (f64_mul q price) comRate) 10000)) 10000)"

definition NetValue_f64 :: "Fill \<Rightarrow> float64" where
  "NetValue_f64 f = f64_add (f64_mul (Fill_Price f) (Fill_Qty f)) (Fill_Cost f)"

definition OnFill_cash_f64 :: "float64 \<Rightarrow> Fill \<Rightarrow> float64" where
  "OnFill_cash_f64 c fill =
     (if Fill_Direction fill = ''BOT'' then f64_sub c (NetValue_f64 fill)
      else f64_add c (NetValue_f64 fill))"

section \<open>Example inputs\<close>

text \<open>A feed that knows no symbol, and a feed that knows one observation.\<close>

definition feed_none :: DataHandler where
  "feed_none symbol = None"

definition feed_of :: "DataEvent \<Rightarrow> DataHandler" where
  "feed_of d symbol = (if symbol = DataEvent_Symbol d then Some d else None)"

definition event_at :: "time \<Rightarrow> DataEvent" where
  "event_at t = \<lparr>DataEvent_Time = t, DataEvent_Symbol = ''USDT-ETH'', DataEvent_LatestPrice = 100\<rparr>"

text \<open>The exchange of \<^verbatim>\<open>main.go\<close>, and a buy of 0.2 units at the price 100.\<close>

definition example_exchange :: Exchange where
  "example_exchange =
     \<lparr>Exchange_Symbol = ''poloniex'', Exchange_ExchangeFee = 0, Exchange_CommissionRate = 0.0025\<rparr>"


definition example_order :: Order where
  "example_order = \<lparr>Order_Time = 1, Order_Symbol = ''USDT-ETH'', Order_Direction = ''buy'',
     Order_Qty = 0.2, Order_OrderType = ''MKT'', Order_Limit = 0\<rparr>"

definition example_fill :: Fill where
  "example_fill = \<lparr>Fill_Time = 1, Fill_Symbol = ''USDT-ETH'', Fill_Exchange = ''poloniex'',
     Fill_Direction = ''BOT'', Fill_Qty = 0.2, Fill_Price = 100, Fill_Commission = 0.05,
     Fill_ExchangeFee = 0, Fill_Cost = 0.05\<rparr>"

definition portfolio_of_cash :: "float64 \<Rightarrow> Portfolio" where
  "portfolio_of_cash c = \<lparr>initialCash = 1000, cash = c, holdings = [], transactions = []\<rparr>"

definition example_portfolio :: Portfolio where
  "example_portfolio = portfolio_of_cash 1000"

text \<open>
  A run of five observations with the portfolio values 100, 95, 92.15, 91.2285 and
  99.4391, and the statistics it leaves at four decimal places.
\<close>

definition example_run :: "(DataEvent \<times> Portfolio) list" where
  "example_run =
     [(event_at 1, portfolio_of_cash 100), (event_at 2, portfolio_of_cash 95),
      (event_at 3, portfolio_of_cash 92.15), (event_at 4, portfolio_of_cash 91.2285),
      (event_at 5, portfolio_of_cash 99.4391)]"

definition example_statistic :: Statistic where
  "example_statistic =
     \<lparr>eventHistory = [], transactionHistory = [],
      Statistic_equity =
        [\<lparr>timestamp = 1, equity = 100, equityReturn = 0, drawdown = 0\<rparr>,
         \<lparr>timestamp = 2, equity = 95, equityReturn = - 0.05, drawdown = - 0.05\<rparr>,
         \<lparr>timestamp = 3, equity = 92.15, equityReturn = - 0.03, drawdown = - 0.0785\<rparr>,
         \<lparr>timestamp = 4, equity = 91.2285, equityReturn = - 0.01, drawdown = - 0.0877\<rparr>,
         \<lparr>timestamp = 5, equity = 99.4391, equityReturn = 0.09, drawdown = - 0.0056\<rparr>],
      high = \<lparr>timestamp = 1, equity = 100, equityReturn = 0, drawdown = 0\<rparr>,
      low = equityPoint_zero\<rparr>"

section \<open>Properties of the rounding\<close>

lemma dec_Round_nonpos:
  assumes "d \<le> 0"
  shows "dec_Round d places \<le> 0"
proof -
  have s: "sgn d \<le> 0"
    using assms by (simp add: sgn_real_def)
  have "0 \<le> \<bar>d\<bar> * 10 ^ nat places + 1 / 2" "0 \<le> \<bar>d\<bar> / 10 ^ nat (- places) + 1 / 2"
    by (simp_all add: add_nonneg_nonneg)
  then have k: "0 \<le> real_of_int \<lfloor>\<bar>d\<bar> * 10 ^ nat places + 1 / 2\<rfloor>"
    "0 \<le> real_of_int \<lfloor>\<bar>d\<bar> / 10 ^ nat (- places) + 1 / 2\<rfloor>"
    by simp_all
  have "sgn d * (real_of_int \<lfloor>\<bar>d\<bar> * 10 ^ nat places + 1 / 2\<rfloor> / 10 ^ nat places) \<le> 0"
    using s k(1) by (intro mult_nonpos_nonneg) simp_all
  moreover have "sgn d * (real_of_int \<lfloor>\<bar>d\<bar> / 10 ^ nat (- places) + 1 / 2\<rfloor> * 10 ^ nat (- places)) \<le> 0"
    using s k(2) by (intro mult_nonpos_nonneg) simp_all
  ultimately show ?thesis
    by (simp add: dec_Round_def mult.assoc)
qed

lemma dec_Round_error:
  assumes "0 \<le> places"
  shows "\<bar>dec_Round d places - d\<bar> \<le> 1 / (2 * 10 ^ nat places)"
proof -
  define y where "y = \<bar>d\<bar> * 10 ^ nat places"
  define k where "k = \<lfloor>y + 1 / 2\<rfloor>"
  have k: "of_int k \<le> y + 1 / 2" "y + 1 / 2 < of_int k + 1"
    unfolding k_def by linarith+
  have d: "d = sgn d * (y / 10 ^ nat places)"
    unfolding y_def by (simp add: sgn_real_def)
  have "dec_Round d places - d = sgn d * ((of_int k - y) / 10 ^ nat places)"
    using assms unfolding dec_Round_def k_def[symmetric] y_def[symmetric]
    by (subst (2) d) (simp add: algebra_simps diff_divide_distrib)
  then have "\<bar>dec_Round d places - d\<bar> = \<bar>sgn d\<bar> * (\<bar>of_int k - y\<bar> / 10 ^ nat places)"
    by (simp add: abs_mult)
  also have "\<dots> \<le> 1 * ((1 / 2) / 10 ^ nat places)"
  proof -
    have "\<bar>of_int k - y\<bar> \<le> 1 / 2"
      using k by linarith
    moreover have "\<bar>sgn d\<bar> \<le> 1"
      by (simp add: sgn_real_def)
    ultimately show ?thesis
      by (intro mult_mono divide_right_mono) simp_all
  qed
  finally show ?thesis by simp
qed

lemma dec_Round_grid:
  assumes "0 \<le> places"
  shows "\<exists>k::int. dec_Round d places = of_int k / 10 ^ nat places"
proof (cases "d < 0")
  case True
  then have "dec_Round d places = of_int (- \<lfloor>\<bar>d\<bar> * 10 ^ nat places + 1 / 2\<rfloor>) / 10 ^ nat places"
    using assms by (simp add: dec_Round_def sgn_real_def)
  then show ?thesis by blast
next
  case False
  then have "dec_Round d places = of_int (if d = 0 then 0 else \<lfloor>\<bar>d\<bar> * 10 ^ nat places + 1 / 2\<rfloor>) / 10 ^ nat places"
    using assms by (simp add: dec_Round_def sgn_real_def)
  then show ?thesis by blast
qed

section \<open>Properties of the execution\<close>


text \<open>
  C2, as the code has it: when the feed has a latest observation of the order's symbol,
  \<^verbatim>\<open>ExecuteOrder\<close> returns a fill at that price (with the order's time, symbol and
  quantity, the side \<^verbatim>\<open>BOT\<close> for a buy and \<^verbatim>\<open>SLD\<close> for a sell, the commission, the fee
  and their sum as cost) and no error; and whatever the feed, it never returns an error.
\<close>

theorem ExecuteOrder_fill:
  "(data (Order_Symbol order) = Some d \<longrightarrow>
      ExecuteOrder e order data =
        Return (\<lparr>Fill_Time = Order_Time order, Fill_Symbol = Order_Symbol order,
                  Fill_Exchange = Exchange_Symbol e,
                  Fill_Direction = (if Order_Direction order = ''buy'' then ''BOT''
                                    else if Order_Direction order = ''sell'' then ''SLD'' else []),
                  Fill_Qty = Order_Qty order, Fill_Price = DataEvent_LatestPrice d,
                  Fill_Commission = calculateCommission e (Order_Qty order) (DataEvent_LatestPrice d),
                  Fill_ExchangeFee = Exchange_ExchangeFee e,
                  Fill_Cost = calculateCommission e (Order_Qty order) (DataEvent_LatestPrice d)
                              + Exchange_ExchangeFee e\<rparr>, None)) \<and>
   ExecuteOrder e order data \<noteq> Return (f, Some err)"
  by (cases "data (Order_Symbol order)")
     (simp_all add: ExecuteOrder_def LatestPrice_def Let_def calculateExchangeFee_def calculateCost_def)

theorem ExecuteOrder_fill_witness:
  "feed_of (event_at 1) (Order_Symbol example_order) = Some (event_at 1) \<and>
   ExecuteOrder example_exchange example_order (feed_of (event_at 1)) = Return (example_fill, None)"
proof -
  have h: "feed_of (event_at 1) (Order_Symbol example_order) = Some (event_at 1)"
    by (simp add: feed_of_def event_at_def example_order_def)
  have c: "calculateCommission example_exchange 0.2 100 = 0.05"
    by (simp add: calculateCommission_def math_Floor_def example_exchange_def)
  from ExecuteOrder_fill [of "feed_of (event_at 1)" example_order "event_at 1" example_exchange]
  have "ExecuteOrder example_exchange example_order (feed_of (event_at 1)) =
      Return (\<lparr>Fill_Time = Order_Time example_order, Fill_Symbol = Order_Symbol example_order,
                  Fill_Exchange = Exchange_Symbol example_exchange,
                  Fill_Direction = (if Order_Direction example_order = ''buy'' then ''BOT''
                                    else if Order_Direction example_order = ''sell'' then ''SLD'' else []),
                  Fill_Qty = Order_Qty example_order, Fill_Price = DataEvent_LatestPrice (event_at 1),
                  Fill_Commission = calculateCommission example_exchange (Order_Qty example_order) (DataEvent_LatestPrice (event_at 1)),
                  Fill_ExchangeFee = Exchange_ExchangeFee example_exchange,
                  Fill_Cost = calculateCommission example_exchange (Order_Qty example_order) (DataEvent_LatestPrice (event_at 1))
                              + Exchange_ExchangeFee example_exchange\<rparr>, None)"
    using h by blast
  also have "\<dots> = Return (example_fill, None)"
    using c by (simp add: example_fill_def example_order_def event_at_def example_exchange_def)
  finally show ?thesis using h by simp
qed

text \<open>
  With a feed that has no observation of the symbol, \<^verbatim>\<open>ExecuteOrder\<close> does not return
  an error: the call of \<^verbatim>\<open>LatestPrice\<close> on the \<^verbatim>\<open>nil\<close> observation panics.
\<close>

theorem ExecuteOrder_no_price_counterexample:
  "feed_none (Order_Symbol example_order) = None \<and>
   ExecuteOrder example_exchange example_order feed_none = Panic"
  by (simp add: ExecuteOrder_def LatestPrice_def feed_none_def)

section \<open>Properties of the portfolio\<close>

text \<open>
  C9: \<^verbatim>\<open>Reset\<close> sets the cash to zero and empties the transaction log; the initial
  cash and the holdings are as before.
\<close>

theorem Reset_frame:
  "cash (Reset p) = 0 \<and> transactions (Reset p) = [] \<and>
   initialCash (Reset p) = initialCash p \<and> holdings (Reset p) = holdings p"
  by (simp add: Reset_def)

lemma Value_loop_sum:
  "Value_loop acc hs = acc + (\<Sum>(symbol, pos)\<leftarrow>hs. marketValue pos)"
  by (induction acc hs rule: Value_loop.induct) (simp_all add: dec_Add_def NewFromFloat_def)

text \<open>
  C1: for every portfolio, \<^verbatim>\<open>Value\<close> is the current cash plus the sum of the market
  values of all held positions, added as decimals and rounded to 4 decimal places: the
  result is a multiple of one ten-thousandth and differs from the exact sum by at most
  half of that.
\<close>

theorem Value_cash_plus_positions:
  "Value p = dec_Round (cash p + (\<Sum>(symbol, pos)\<leftarrow>holdings p. marketValue pos)) 4 \<and>
   (\<exists>k::int. Value p = of_int k / 10 ^ 4) \<and>
   \<bar>Value p - (cash p + (\<Sum>(symbol, pos)\<leftarrow>holdings p. marketValue pos))\<bar> \<le> 1 / 20000"
proof -
  have v: "Value p = dec_Round (cash p + (\<Sum>(symbol, pos)\<leftarrow>holdings p. marketValue pos)) 4"
    by (simp add: Value_def Value_loop_sum NewFromFloat_def Float64_def dec_Add_def)
  have g: "\<exists>k::int. Value p = of_int k / 10 ^ 4"
    unfolding v using dec_Round_grid [of 4] by simp
  have e: "\<bar>Value p - (cash p + (\<Sum>(symbol, pos)\<leftarrow>holdings p. marketValue pos))\<bar> \<le> 1 / 20000"
    unfolding v using dec_Round_error [of 4 "cash p + (\<Sum>(symbol, pos)\<leftarrow>holdings p. marketValue pos)"] by simp
  from v g e show ?thesis by blast
qed

text \<open>A fill leaves the keys of the holdings distinct, as the keys of a map are.\<close>

lemma OnFill_distinct:
  assumes "distinct (map fst (holdings p))"
  shows "distinct (map fst (holdings (fst (OnFill pos_Create pos_Update p fill))))"
  using assms by (simp add: OnFill_def Let_def distinct_update split: option.split)

text \<open>
  The order in which the map is ranged over does not matter: two portfolios with the same
  cash and the same entries in any order have the same value.
\<close>

lemma Value_order:
  assumes "mset (holdings p') = mset (holdings p)" "cash p' = cash p"
  shows "Value p' = Value p"
proof -
  have "mset (map (\<lambda>(symbol, pos). marketValue pos) (holdings p')) = mset (map (\<lambda>(symbol, pos). marketValue pos) (holdings p))"
    using assms(1) by (metis mset_map)
  then have "(\<Sum>(symbol, pos)\<leftarrow>holdings p'. marketValue pos) = (\<Sum>(symbol, pos)\<leftarrow>holdings p. marketValue pos)"
    by (metis sum_mset_sum_list)
  then show ?thesis
    by (simp add: Value_def Value_loop_sum NewFromFloat_def Float64_def dec_Add_def assms(2))
qed

text \<open>The scenario of the specification: cash 979.95 and one position worth 20.\<close>

lemma Value_example:
  "Value \<lparr>initialCash = 1000, cash = 979.95,
          holdings = [(''USDT-ETH'', \<lparr>qty = 0.2, marketValue = 20\<rparr>)],
          transactions = [example_fill]\<rparr> = 999.95"
  by (simp add: Value_def NewFromFloat_def Float64_def dec_Add_def dec_Round_def)

text \<open>
  C6: \<^verbatim>\<open>OnFill\<close> changes the cash by exactly the net value of the fill, price \<open>\<times>\<close>
  quantity + cost: subtracted for a \<^verbatim>\<open>BOT\<close> fill, added for any other (the \<^verbatim>\<open>SLD\<close>)
  fill. From the cash 1000, a bought fill of 0.2 units at the price 100 with the
  commission 0.05 and no fee leaves 979.95.
\<close>

theorem OnFill_cash:
  "cash (fst (OnFill pos_Create pos_Update p fill)) =
     (if Fill_Direction fill = ''BOT'' then cash p - NetValue fill else cash p + NetValue fill) \<and>
   NetValue fill = Fill_Price fill * Fill_Qty fill + Fill_Cost fill \<and>
   cash (fst (OnFill pos_Create pos_Update example_portfolio example_fill)) = 979.95"
proof -
  have change: "cash (fst (OnFill pos_Create pos_Update p fill)) =
     (if Fill_Direction fill = ''BOT'' then cash p - NetValue fill else cash p + NetValue fill)"
    for p fill
    by (cases "map_of (holdings p) (Fill_Symbol fill)") (simp_all add: OnFill_def Let_def)
  have net: "NetValue fill = Fill_Price fill * Fill_Qty fill + Fill_Cost fill"
    by (simp add: NetValue_def)
  have "cash (fst (OnFill pos_Create pos_Update example_portfolio example_fill)) =
      cash example_portfolio - NetValue example_fill"
    by (simp add: change example_fill_def)
  also have "\<dots> = 1000 - (100 * 0.2 + 0.05)"
    by (simp add: NetValue_def example_portfolio_def portfolio_of_cash_def example_fill_def)
  also have "\<dots> = 979.95"
    by simp
  finally show ?thesis
    using change net by blast
qed




section \<open>Properties of the statistics\<close>

lemma lastEquityPoint_last:
  "Statistic_equity s \<noteq> [] \<Longrightarrow> lastEquityPoint s = (last (Statistic_equity s), True)"
  by (simp add: lastEquityPoint_def last_conv_nth)

lemma calcEquityReturn_Return:
  assumes "Statistic_equity s \<noteq> []"
  shows "calcEquityReturn DP s e =
    Return (e\<lparr>equityReturn :=
      (if equity (last (Statistic_equity s)) = 0 then 1
       else dec_Round ((equity e - equity (last (Statistic_equity s))) / equity (last (Statistic_equity s))) DP)\<rparr>)"
  by (simp add: calcEquityReturn_def lastEquityPoint_last [OF assms] NewFromFloat_def Float64_def
      dec_Equal_def dec_Div_def dec_Sub_def Let_def)

lemma calcDrawdown_Return:
  "calcDrawdown DP s e =
    Return (e\<lparr>drawdown :=
      (if equity (high s) = 0 \<or> equity (high s) \<le> equity e then 0
       else dec_Round ((equity e - equity (high s)) / equity (high s)) DP)\<rparr>)"
  by (simp add: calcDrawdown_def NewFromFloat_def Float64_def dec_GreaterThanOrEqual_def
      dec_Div_def dec_Sub_def Let_def)

lemma Update_Return:
  "Update DP s d p =
     Return (s\<lparr>high := (if equity (high s) \<le> Value p then Update_point DP s d p else high s),
              low := (if Value p \<le> equity (low s) then Update_point DP s d p else low s),
              Statistic_equity := Statistic_equity s @ [Update_point DP s d p]\<rparr>)"
proof (cases "Statistic_equity s = []")
  case True
  then show ?thesis
    by (simp add: Update_def Update_point_def equityPoint_zero_def Let_def)
next
  case False
  then show ?thesis
    by (simp add: Update_def Update_point_def equityPoint_zero_def Let_def
        calcEquityReturn_Return calcDrawdown_Return)
qed


lemma Update_point_drawdown:
  assumes "0 \<le> equity (high s)"
  shows "drawdown (Update_point DP s d p) \<le> 0"
proof -
  have "dec_Round ((Value p - equity (high s)) / equity (high s)) DP \<le> 0"
    if "\<not> equity (high s) \<le> Value p"
    using that assms by (intro dec_Round_nonpos) (simp add: divide_le_0_iff)
  then show ?thesis
    by (simp add: Update_point_def)
qed

lemma drawdown_inv_zero: "drawdown_inv Statistic_zero"
  by (simp add: drawdown_inv_def Statistic_zero_def equityPoint_zero_def)

lemma drawdown_inv_Update:
  assumes "drawdown_inv s" "Update DP s d p = Return s'"
  shows "drawdown_inv s'"
proof -
  have h: "0 \<le> equity (high s)" and l: "list_all (\<lambda>e. drawdown e \<le> 0) (Statistic_equity s)"
    using assms(1) by (simp_all add: drawdown_inv_def)
  have s': "s' = s\<lparr>high := (if equity (high s) \<le> Value p then Update_point DP s d p else high s),
              low := (if Value p \<le> equity (low s) then Update_point DP s d p else low s),
              Statistic_equity := Statistic_equity s @ [Update_point DP s d p]\<rparr>"
    using assms(2) by (simp add: Update_Return)
  have e: "equity (Update_point DP s d p) = Value p"
    by (simp add: Update_point_def)
  have "0 \<le> equity (high s')"
    using h by (simp add: s' e)
  moreover have "list_all (\<lambda>e. drawdown e \<le> 0) (Statistic_equity s')"
    using l Update_point_drawdown [OF h] by (simp add: s')
  ultimately show ?thesis
    by (simp add: drawdown_inv_def)
qed

lemma Updates_Return: "\<exists>s'. Updates DP s obs = Return s'"
proof (induction obs arbitrary: s)
  case Nil
  show ?case by simp
next
  case (Cons x obs)
  obtain d p where x: "x = (d, p)" by (cases x)
  obtain s1 where s1: "Update DP s d p = Return s1"
    by (simp add: Update_Return)
  from Cons.IH [of s1] show ?case
    by (simp add: x s1)
qed

lemma drawdown_inv_Updates:
  "drawdown_inv s \<Longrightarrow> Updates DP s obs = Return s' \<Longrightarrow> drawdown_inv s'"
proof (induction obs arbitrary: s)
  case Nil
  then show ?case by simp
next
  case (Cons x obs)
  obtain d p where x: "x = (d, p)" by (cases x)
  obtain s1 where s1: "Update DP s d p = Return s1"
    by (simp add: Update_Return)
  have "drawdown_inv s1"
    using Cons.prems(1) s1 by (rule drawdown_inv_Update)
  moreover have "Updates DP s1 obs = Return s'"
    using Cons.prems(2) by (simp add: x s1)
  ultimately show ?case by (rule Cons.IH)
qed

lemma Value_portfolio_of_cash:
  "Value (portfolio_of_cash c) = dec_Round c 4"
  by (simp add: Value_def portfolio_of_cash_def NewFromFloat_def Float64_def dec_Add_def)

text \<open>The example run leaves the example statistics.\<close>

lemma example_run_result: "Updates 4 Statistic_zero example_run = Return example_statistic"
  by (simp add: example_run_def Update_Return Update_point_def Value_portfolio_of_cash
      dec_Round_def Statistic_zero_def equityPoint_zero_def event_at_def example_statistic_def)



text \<open>
  C4: after every sequence of calls of \<^verbatim>\<open>Update\<close> from the initial state, one more call
  returns, and every recorded equity point (the new one among them) has a drawdown of at
  most 0; when the new point's equity is at or above the high-water equity, its drawdown
  is exactly 0 and it becomes the high-water point.
\<close>

theorem Update_drawdown_nonpos:
  "\<exists>s s' e. Updates DP Statistic_zero obs = Return s \<and> Update DP s d p = Return s' \<and>
     Statistic_equity s' = Statistic_equity s @ [e] \<and> equity e = Value p \<and>
     (\<forall>x\<in>set (Statistic_equity s'). drawdown x \<le> 0) \<and>
     (equity (high s) \<le> equity e \<longrightarrow> drawdown e = 0 \<and> high s' = e)"
proof -
  obtain s where s: "Updates DP Statistic_zero obs = Return s"
    using Updates_Return by blast
  define e where "e = Update_point DP s d p"
  define s' where "s' = s\<lparr>high := (if equity (high s) \<le> Value p then e else high s),
              low := (if Value p \<le> equity (low s) then e else low s),
              Statistic_equity := Statistic_equity s @ [e]\<rparr>"
  have u: "Update DP s d p = Return s'"
    by (simp add: Update_Return s'_def e_def)
  have "drawdown_inv s"
    using drawdown_inv_zero s by (rule drawdown_inv_Updates)
  then have "drawdown_inv s'"
    using u by (rule drawdown_inv_Update)
  then have all: "\<forall>x\<in>set (Statistic_equity s'). drawdown x \<le> 0"
    by (simp add: drawdown_inv_def list_all_iff)
  have eq: "equity e = Value p"
    by (simp add: e_def Update_point_def)
  have top: "drawdown e = 0 \<and> high s' = e" if "equity (high s) \<le> equity e"
    using that by (simp add: s'_def eq) (simp add: e_def Update_point_def)
  have "Statistic_equity s' = Statistic_equity s @ [e]"
    by (simp add: s'_def)
  with s u eq all top show ?thesis by blast
qed

theorem Update_drawdown_nonpos_witness:
  "Updates 4 Statistic_zero example_run = Return example_statistic \<and>
   list_all (\<lambda>x. drawdown x \<le> 0) (Statistic_equity example_statistic) \<and>
   (\<exists>s' e. Update 4 Statistic_zero (event_at 1) (portfolio_of_cash 100) = Return s' \<and>
      Statistic_equity s' = [e] \<and> equity (high Statistic_zero) \<le> equity e \<and>
      drawdown e = 0 \<and> high s' = e)"
proof -
  have v: "Value (portfolio_of_cash 100) = 100"
    by (simp add: Value_portfolio_of_cash dec_Round_def)
  have z: "equity (high Statistic_zero) = 0" "Statistic_equity Statistic_zero = []"
    by (simp_all add: Statistic_zero_def equityPoint_zero_def)
  from Update_drawdown_nonpos [of 4 "[]" "event_at 1" "portfolio_of_cash 100"]
  have "\<exists>s' e. Update 4 Statistic_zero (event_at 1) (portfolio_of_cash 100) = Return s' \<and>
      Statistic_equity s' = [e] \<and> equity (high Statistic_zero) \<le> equity e \<and>
      drawdown e = 0 \<and> high s' = e"
    by (auto simp: v z)
  moreover have "list_all (\<lambda>x. drawdown x \<le> 0) (Statistic_equity example_statistic)"
    by (simp add: example_statistic_def)
  ultimately show ?thesis
    using example_run_result by blast
qed

text \<open>
  C10: the low-water point starts as the zero-valued point; a call of \<^verbatim>\<open>Update\<close>
  replaces it by the new point exactly when the new equity is at or below the low-water
  equity, and leaves it as it is otherwise; hence after every run from the initial state
  in which all portfolio values are strictly positive, the low-water point still is the
  zero-valued point.
\<close>

theorem Update_low_water:
  "low Statistic_zero = equityPoint_zero \<and>
   (\<exists>s' e. Update DP s d p = Return s' \<and> Statistic_equity s' = Statistic_equity s @ [e] \<and>
      equity e = Value p \<and> low s' = (if equity e \<le> equity (low s) then e else low s)) \<and>
   ((\<forall>(d, p)\<in>set obs. 0 < Value p) \<longrightarrow>
      (\<exists>s'. Updates DP Statistic_zero obs = Return s' \<and> low s' = equityPoint_zero))"
proof -
  have a: "low Statistic_zero = equityPoint_zero"
    by (simp add: Statistic_zero_def)
  have b: "\<exists>s' e. Update DP s d p = Return s' \<and> Statistic_equity s' = Statistic_equity s @ [e] \<and>
      equity e = Value p \<and> low s' = (if equity e \<le> equity (low s) then e else low s)"
    by (simp add: Update_Return Update_point_def)
  have keep: "\<exists>s'. Updates DP s obs = Return s' \<and> low s' = equityPoint_zero"
    if "\<forall>(d, p)\<in>set obs. 0 < Value p" "low s = equityPoint_zero" for s
    using that
  proof (induction obs arbitrary: s)
    case Nil
    then show ?case by simp
  next
    case (Cons x obs)
    obtain d p where x: "x = (d, p)" by (cases x)
    have pos: "0 < Value p"
      using Cons.prems(1) by (simp add: x)
    define s1 where "s1 = s\<lparr>high := (if equity (high s) \<le> Value p then Update_point DP s d p else high s),
              low := (if Value p \<le> equity (low s) then Update_point DP s d p else low s),
              Statistic_equity := Statistic_equity s @ [Update_point DP s d p]\<rparr>"
    have u: "Update DP s d p = Return s1"
      by (simp add: Update_Return s1_def)
    have "low s1 = equityPoint_zero"
      using pos Cons.prems(2) by (simp add: s1_def equityPoint_zero_def)
    moreover have "\<forall>(d, p)\<in>set obs. 0 < Value p"
      using Cons.prems(1) by simp
    ultimately have "\<exists>s'. Updates DP s1 obs = Return s' \<and> low s' = equityPoint_zero"
      by (intro Cons.IH)
    then show ?case
      by (simp add: x u)
  qed
  from a b keep [OF _ a] show ?thesis by blast
qed

theorem Update_low_water_witness:
  "list_all (\<lambda>(d, p). 0 < Value p) example_run \<and>
   Updates 4 Statistic_zero example_run = Return example_statistic \<and>
   low example_statistic = equityPoint_zero"
proof -
  have h: "\<forall>(d, p)\<in>set example_run. 0 < Value p"
    by (simp add: example_run_def Value_portfolio_of_cash dec_Round_def)
  from Update_low_water [of 4 _ _ _ example_run] h
  have "\<exists>s'. Updates 4 Statistic_zero example_run = Return s' \<and> low s' = equityPoint_zero"
    by blast
  then have "low example_statistic = equityPoint_zero"
    by (simp add: example_run_result)
  then show ?thesis
    using h example_run_result by (simp add: list_all_iff)
qed

subsection \<open>Risk ratios under a uniform shift\<close>















section \<open>The numeric examples in rounded arithmetic\<close>

text \<open>
  A positive number that \<open>n\<close> doublings bring into the range of the 53-bit integers is
  rounded on the grid of the multiples of \<open>1 / 2 ^ n\<close>.
\<close>

lemma binary64_pos:
  assumes "2 ^ 52 \<le> x * 2 ^ n" "x * 2 ^ n < 2 ^ 53" "n \<le> 1074"
  shows "binary64 x = of_int (round_half_even (x * 2 ^ n)) / 2 ^ n"
proof -
  have x: "0 < x"
    using assms(1) by (smt (verit) mult_nonpos_nonneg zero_le_power zero_less_power)
  have p1: "2 powr real_of_int (52 - int n) = (2::real) ^ 52 / 2 ^ n"
  proof -
    have "2 powr real_of_int (52 - int n) = 2 powr (52 - real n)"
      by simp
    also have "\<dots> = 2 powr 52 / 2 powr real n"
      by (rule powr_diff)
    finally show ?thesis
      by (simp add: powr_realpow)
  qed
  have p2: "2 powr (real_of_int (52 - int n) + 1) = (2::real) ^ 53 / 2 ^ n"
  proof -
    have "2 powr (real_of_int (52 - int n) + 1) = 2 powr (53 - real n)"
      by simp
    also have "\<dots> = 2 powr 53 / 2 powr real n"
      by (rule powr_diff)
    finally show ?thesis
      by (simp add: powr_realpow)
  qed
  have "2 powr real_of_int (52 - int n) \<le> x \<and> x < 2 powr (real_of_int (52 - int n) + 1)"
    unfolding p1 p2 using assms(1,2) by (simp add: field_simps)
  then have "\<lfloor>log 2 x\<rfloor> = 52 - int n"
    using floor_log_eq_powr_iff [of x 2 "52 - int n"] x by simp
  moreover have "2 powr of_int (- int n) = 1 / (2::real) ^ n"
    by (simp add: powr_minus_divide powr_realpow)
  ultimately show ?thesis
    using x assms(3) by (simp add: binary64_def Let_def)
qed

lemma binary64_examples:
  "binary64 0.0025 = 5764607523034235 / 2 ^ 61"
  "binary64 0.2 = 7205759403792794 / 2 ^ 55"
  "binary64 0.05 = 7205759403792794 / 2 ^ 57"
  "binary64 979.95 = 8619731357112730 / 2 ^ 43"
  by (subst binary64_pos [of _ 61], simp_all add: round_half_even_def)
     (subst binary64_pos [of _ 55], simp_all add: round_half_even_def,
      subst binary64_pos [of _ 57], simp_all add: round_half_even_def,
      subst binary64_pos [of _ 43], simp_all add: round_half_even_def)

text \<open>
  The commission on the quantity 100 at the price 10 and the rate \<^verbatim>\<open>0.0025\<close> is 2.5
  in rounded arithmetic too.
\<close>

lemma calculateCommission_f64_example:
  "calculateCommission_f64 (example_exchange\<lparr>Exchange_CommissionRate := binary64 0.0025\<rparr>) 100 10 = 2.5"
proof -
  define r where "r = binary64 0.0025"
  have r: "r = 5764607523034235 / 2 ^ 61"
    unfolding r_def by (rule binary64_examples)
  have 1: "f64_mul 100 10 = 1000"
    unfolding f64_mul_def by (subst binary64_pos [of _ 43]) (simp_all add: round_half_even_def)
  have 2: "f64_mul 1000 r = 5 / 2"
    unfolding f64_mul_def r by (subst binary64_pos [of _ 51]) (simp_all add: round_half_even_def)
  have 3: "f64_mul (5 / 2) 10000 = 25000"
    unfolding f64_mul_def by (subst binary64_pos [of _ 38]) (simp_all add: round_half_even_def)
  have 4: "f64_div 25000 10000 = 5 / 2"
    unfolding f64_div_def by (subst binary64_pos [of _ 51]) (simp_all add: round_half_even_def)
  have "calculateCommission_f64 (example_exchange\<lparr>Exchange_CommissionRate := r\<rparr>) 100 10 =
      f64_div (math_Floor (f64_mul (f64_mul (f64_mul 100 10) r) 10000)) 10000"
    by (simp add: calculateCommission_f64_def)
  also have "\<dots> = 5 / 2"
    by (simp add: 1 2 3 4 math_Floor_def)
  finally show ?thesis
    by (simp add: r_def)
qed

text \<open>
  The cash after the bought fill of \<^verbatim>\<open>0.2\<close> units at the price 100 with the cost
  \<^verbatim>\<open>0.05\<close>, from the cash 1000, is the \<^verbatim>\<open>float64\<close> that \<^verbatim>\<open>979.95\<close> denotes.
\<close>

lemma OnFill_cash_f64_example:
  "OnFill_cash_f64 1000 (example_fill\<lparr>Fill_Qty := binary64 0.2, Fill_Cost := binary64 0.05\<rparr>)
     = binary64 979.95"
proof -
  define q where "q = binary64 0.2"
  define c where "c = binary64 0.05"
  define v where "v = binary64 979.95"
  have q: "q = 7205759403792794 / 2 ^ 55" and c: "c = 7205759403792794 / 2 ^ 57"
    and v: "v = 8619731357112730 / 2 ^ 43"
    unfolding q_def c_def v_def by (rule binary64_examples)+
  have 1: "f64_mul 100 q = 20"
    unfolding f64_mul_def q by (subst binary64_pos [of _ 48]) (simp_all add: round_half_even_def)
  have 2: "f64_add 20 c = 5643573283048653 / 2 ^ 48"
    unfolding f64_add_def c by (subst binary64_pos [of _ 48]) (simp_all add: round_half_even_def)
  have 3: "f64_sub 1000 (5643573283048653 / 2 ^ 48) = v"
    unfolding f64_sub_def v by (subst binary64_pos [of _ 43]) (simp_all add: round_half_even_def)
  have "OnFill_cash_f64 1000 (example_fill\<lparr>Fill_Qty := q, Fill_Cost := c\<rparr>) =
      f64_sub 1000 (f64_add (f64_mul 100 q) c)"
    by (simp add: OnFill_cash_f64_def NetValue_f64_def example_fill_def)
  also have "\<dots> = v"
    by (simp only: 1 2 3)
  finally show ?thesis
    by (simp only: q_def c_def v_def)
qed

end
